theory Spec2Isabelle
  imports Main "HOL-Library.Word"
begin

section \<open>The host: errors, outcomes, files, paths\<close>

text \<open>
  The editor (\<^verbatim>\<open>mu/editor.py\<close>) drives a window (\<^verbatim>\<open>mu/interface.py\<close>), the file
  system, the JSON codec and the flashing library. Python's \<^verbatim>\<open>str\<close> is a
  \<^typ>\<open>string\<close> here (the UTF-8 bytes of the text, so that \<^verbatim>\<open>encode('utf-8')\<close> is
  the identity). Every \<^verbatim>\<open>raise\<close> is a value of \<open>error\<close>, and an operation of the
  editor returns how it ended together with the world it left.
\<close>

datatype error =
    RuntimeError string
  | NotImplementedError string
  | IOError string
  | ValueError string
  | FileNotFoundError
  | IsADirectoryError
  | NotADirectoryError
  | PermissionError
  | UnicodeDecodeError
  | AttributeError

text \<open>
  The subclasses of \<^verbatim>\<open>OSError\<close>. In Python 3 \<^verbatim>\<open>IOError\<close> is \<^verbatim>\<open>OSError\<close>, so that
  \<^verbatim>\<open>except IOError\<close> catches all of them; \<open>IOError m\<close> is an \<^verbatim>\<open>OSError\<close> of no
  particular subclass with the message \<open>m\<close>.
\<close>

fun is_OSError :: "error \<Rightarrow> bool" where
  "is_OSError (IOError m) = True"
| "is_OSError FileNotFoundError = True"
| "is_OSError IsADirectoryError = True"
| "is_OSError NotADirectoryError = True"
| "is_OSError PermissionError = True"
| "is_OSError e = False"

text \<open>\<open>Exited n\<close> is \<^verbatim>\<open>sys.exit(n)\<close>: the process is gone.\<close>

datatype outcome = Returned | Raised error | Exited int

text \<open>
  What writing a text to a path does: the file is opened and written; or
  \<^verbatim>\<open>open(p, 'w')\<close> raises (a directory, a missing parent directory, no permission)
  and nothing changes; or the file is opened, hence created or truncated, and the
  write raises after some characters (a full disk).
\<close>

datatype write_behaviour = Writes | OpenRaises error | WriteRaises error nat

text \<open>
  The file system says of every path what the editor can observe of it: whether
  \<^verbatim>\<open>os.path.exists\<close> holds; the text of the regular file there, if there is one;
  the error that opening it for reading raises when that is not
  \<^verbatim>\<open>FileNotFoundError\<close> for a path that names nothing (\<^verbatim>\<open>IsADirectoryError\<close>,
  \<^verbatim>\<open>NotADirectoryError\<close> for a path below a regular file, \<^verbatim>\<open>PermissionError\<close>,
  \<^verbatim>\<open>UnicodeDecodeError\<close> when the text is read); and what writing to it does.
\<close>

record node =
  present :: bool
  stored :: "string option"
  read_error :: "error option"
  on_write :: write_behaviour

type_synonym fs = "string \<Rightarrow> node"

datatype os = Posix | NT | OtherOS

text \<open>Python's truth value of a path that may be \<^verbatim>\<open>None\<close>: \<^verbatim>\<open>None\<close> and \<^verbatim>\<open>''\<close> are false.\<close>

fun truthy :: "string option \<Rightarrow> bool" where
  "truthy None = False"
| "truthy (Some s) = (s \<noteq> [])"

text \<open>\<^verbatim>\<open>s.endswith(suf)\<close>.\<close>

definition endswith :: "string \<Rightarrow> string \<Rightarrow> bool" where
  "endswith s suf = (take (length suf) (rev s) = rev suf)"

text \<open>\<^verbatim>\<open>os.path.basename\<close> and \<^verbatim>\<open>os.path.join\<close> of two parts, as \<^verbatim>\<open>posixpath\<close> has them.\<close>

definition basename :: "string \<Rightarrow> string" where
  "basename p = rev (takeWhile (\<lambda>c. c \<noteq> CHR ''/'') (rev p))"

definition join :: "string \<Rightarrow> string \<Rightarrow> string" where
  "join a b =
     (if take 1 b = ''/'' then b
      else if a = [] \<or> endswith a ''/'' then a @ b
      else a @ ''/'' @ b)"

text \<open>
  What the module reads from outside \<^verbatim>\<open>mu/editor.py\<close>: the platform, the two
  directories, the \<^verbatim>\<open>json\<close> module, \<^verbatim>\<open>mu.contrib.uflash\<close> and the constructor
  of \<^verbatim>\<open>mu.repl.REPLPane\<close>. A library call returns \<open>Inl e\<close> when it raises \<open>e\<close>.
  \<open>json_load\<close> is typed for session files: it raises, or returns a list of
  strings. \<open>save_hex\<close> returns the error it raises, if any, and the file system it
  leaves. \<open>strerror\<close> is the text of \<^verbatim>\<open>str(ex)\<close> for the errors that carry no message
  here.
\<close>

record host =
  os_name :: os
  HOME_DIRECTORY :: string
  DATA_DIR :: string
  json_load :: "string \<Rightarrow> error + string list"
  json_dump :: "string list \<Rightarrow> string"
  RUNTIME :: string
  hexlify :: "string \<Rightarrow> error + string"
  embed_hex :: "string \<Rightarrow> string \<Rightarrow> error + string"
  extract_script :: "string \<Rightarrow> error + string"
  save_hex :: "string \<Rightarrow> string \<Rightarrow> fs \<Rightarrow> error option \<times> fs"
  REPLPane :: "string \<Rightarrow> error option"
  strerror :: "error \<Rightarrow> string"

text \<open>\<^verbatim>\<open>str(ex)\<close>.\<close>

definition str :: "host \<Rightarrow> error \<Rightarrow> string" where
  "str h e =
     (case e of
        RuntimeError m \<Rightarrow> m
      | NotImplementedError m \<Rightarrow> m
      | IOError m \<Rightarrow> m
      | ValueError m \<Rightarrow> m
      | _ \<Rightarrow> strerror h e)"

definition MICROPYTHON_DIRECTORY :: "host \<Rightarrow> string" where
  "MICROPYTHON_DIRECTORY h = join (HOME_DIRECTORY h) ''micropython''"

definition SESSION_FILE :: "host \<Rightarrow> string" where
  "SESSION_FILE h = join (DATA_DIR h) ''tabs.json''"

section \<open>The window and the editor\<close>

text \<open>
  \<^verbatim>\<open>EditorPane\<close>: the path, the text (\<^verbatim>\<open>tab.text()\<close>, field \<open>contents\<close>) and the
  modified flag of one tab.
\<close>

record EditorPane =
  path :: "string option"
  contents :: string
  modified :: bool

text \<open>What the window put in front of the user, in order.\<close>

datatype dialog =
    Message string "string option" "string option"
  | Confirmation string
  | LoadDialog string
  | SaveDialog string

text \<open>The dialogs that are messages (\<^verbatim>\<open>show_message\<close>).\<close>

fun is_message :: "dialog \<Rightarrow> bool" where
  "is_message (Message m info icon) = True"
| "is_message d = False"

datatype button = Ok | Cancel

text \<open>\<^verbatim>\<open>class REPL\<close>: only the port.\<close>

datatype REPL = REPL (port: string)

text \<open>
  The state an operation works on: the file system; the window's tabs, the index
  of the current tab, its REPL pane (\<^verbatim>\<open>Window.repl\<close>) and the REPL panes attached to
  its splitter; the editor's \<^verbatim>\<open>self.repl\<close>; the dialogs shown so far; and whether
  the close event handed to \<^verbatim>\<open>quit\<close> was ignored.
\<close>

record world =
  files :: fs
  tabs :: "EditorPane list"
  current :: nat
  view_repl :: "string option"
  splitter :: "string list"
  repl :: "REPL option"
  shown :: "dialog list"
  ignored :: bool

subsection \<open>Files\<close>

text \<open>
  \<^verbatim>\<open>open(p).read()\<close>: the empty path always raises \<^verbatim>\<open>FileNotFoundError\<close>; otherwise the
  path's own error, or \<^verbatim>\<open>FileNotFoundError\<close> when no file is there, or the text.
\<close>

definition open_read :: "fs \<Rightarrow> string \<Rightarrow> error + string" where
  "open_read f p =
     (if p = [] then Inl FileNotFoundError
      else case read_error (f p) of
        Some e \<Rightarrow> Inl e
      | None \<Rightarrow>
          (case stored (f p) of
             None \<Rightarrow> Inl FileNotFoundError
           | Some t \<Rightarrow> Inr t))"

text \<open>
  \<^verbatim>\<open>open(p, 'w')\<close> and the write of \<open>t\<close>: the error raised, if any, and the file system
  left.
\<close>

definition open_write :: "fs \<Rightarrow> string \<Rightarrow> string \<Rightarrow> error option \<times> fs" where
  "open_write f p t =
     (if p = [] then (Some FileNotFoundError, f)
      else case on_write (f p) of
        OpenRaises e \<Rightarrow> (Some e, f)
      | WriteRaises e n \<Rightarrow> (Some e, f(p := (f p)\<lparr>present := True, stored := Some (take n t)\<rparr>))
      | Writes \<Rightarrow> (None, f(p := (f p)\<lparr>present := True, stored := Some t\<rparr>)))"

text \<open>\<^verbatim>\<open>os.path.exists(p)\<close>.\<close>

definition exists :: "fs \<Rightarrow> string \<Rightarrow> bool" where
  "exists f p = (p \<noteq> [] \<and> present (f p))"

subsection \<open>The window (\<^verbatim>\<open>Window\<close> of \<^verbatim>\<open>mu/interface.py\<close>)\<close>

definition add_tab :: "string option \<Rightarrow> string \<Rightarrow> world \<Rightarrow> world" where
  "add_tab p t w =
     w\<lparr>tabs := tabs w @ [\<lparr>path = p, contents = t, modified = False\<rparr>],
       current := length (tabs w)\<rparr>"

definition current_tab :: "world \<Rightarrow> EditorPane option" where
  "current_tab w =
     (if current w < length (tabs w) then Some (tabs w ! current w) else None)"

definition tab_count :: "world \<Rightarrow> nat" where
  "tab_count w = length (tabs w)"

definition view_modified :: "world \<Rightarrow> bool" where
  "view_modified w = list_ex modified (tabs w)"

definition label :: "EditorPane \<Rightarrow> string" where
  "label t =
     (let l = (case path t of
                 None \<Rightarrow> ''untitled''
               | Some p \<Rightarrow> if p \<noteq> [] then basename p else ''untitled'')
      in if modified t then l @ '' *'' else l)"

definition show_message :: "string \<Rightarrow> string option \<Rightarrow> string option \<Rightarrow> world \<Rightarrow> world" where
  "show_message m info icon w = w\<lparr>shown := shown w @ [Message m info icon]\<rparr>"

definition show_confirmation :: "string \<Rightarrow> world \<Rightarrow> world" where
  "show_confirmation m w = w\<lparr>shown := shown w @ [Confirmation m]\<rparr>"

definition get_load_path :: "string \<Rightarrow> world \<Rightarrow> world" where
  "get_load_path folder w = w\<lparr>shown := shown w @ [LoadDialog folder]\<rparr>"

definition get_save_path :: "string \<Rightarrow> world \<Rightarrow> world" where
  "get_save_path folder w = w\<lparr>shown := shown w @ [SaveDialog folder]\<rparr>"

text \<open>
  \<^verbatim>\<open>Window.add_repl\<close>: the pane's constructor may raise; otherwise the pane becomes
  \<^verbatim>\<open>Window.repl\<close> and is attached to the splitter. \<^verbatim>\<open>Window.remove_repl\<close> detaches
  \<^verbatim>\<open>Window.repl\<close>; with no pane, \<^verbatim>\<open>None.setParent\<close> raises \<^verbatim>\<open>AttributeError\<close>.
\<close>

definition view_add_repl :: "host \<Rightarrow> REPL \<Rightarrow> world \<Rightarrow> outcome \<times> world" where
  "view_add_repl h r w =
     (case REPLPane h (port r) of
        Some e \<Rightarrow> (Raised e, w)
      | None \<Rightarrow> (Returned, w\<lparr>view_repl := Some (port r), splitter := splitter w @ [port r]\<rparr>))"

definition view_remove_repl :: "world \<Rightarrow> outcome \<times> world" where
  "view_remove_repl w =
     (case view_repl w of
        None \<Rightarrow> (Raised AttributeError, w)
      | Some p \<Rightarrow> (Returned, w\<lparr>view_repl := None, splitter := remove1 p (splitter w)\<rparr>))"

subsection \<open>The live session (\<^verbatim>\<open>REPL\<close>, \<^verbatim>\<open>add_repl\<close>, \<^verbatim>\<open>remove_repl\<close>, \<^verbatim>\<open>toggle_repl\<close>)\<close>

definition REPL_init :: "host \<Rightarrow> string \<Rightarrow> error + REPL" where
  "REPL_init h p =
     (case os_name h of
        Posix \<Rightarrow> Inr (REPL (''/dev/'' @ p))
      | NT \<Rightarrow> Inr (REPL p)
      | OtherOS \<Rightarrow> Inl (NotImplementedError ''OS not supported.''))"

definition AlreadyOpen :: error where
  "AlreadyOpen = RuntimeError ''REPL already running''"

definition NotOpen :: error where
  "NotOpen = RuntimeError ''REPL not running''"

definition no_device_information :: string where
  "no_device_information =
     ''Please make sure the device is plugged into this computer.'' @ [CHR 0x0A, CHR 0x0A]
     @ ''The device must have MicroPython flashed onto it before the REPL will work.''
     @ [CHR 0x0A, CHR 0x0A]
     @ ''Finally, press the device's reset button and wait a few seconds before trying again.''"

text \<open>
  \<open>found\<close> is what \<^verbatim>\<open>mu.repl.find_microbit()\<close> returns at this call (\<open>Inl\<close> when it
  raises). The \<^verbatim>\<open>try\<close> covers the construction of the \<^verbatim>\<open>REPL\<close> and of the pane, and its
  \<^verbatim>\<open>except IOError\<close> catches every \<^verbatim>\<open>OSError\<close>.
\<close>

definition add_repl :: "host \<Rightarrow> error + string option \<Rightarrow> world \<Rightarrow> outcome \<times> world" where
  "add_repl h found w =
     (if repl w \<noteq> None then (Raised AlreadyOpen, w)
      else case found of
        Inl e \<Rightarrow> (Raised e, w)
      | Inr mb_port \<Rightarrow>
          (case mb_port of
             Some p \<Rightarrow>
               if p \<noteq> [] then
                 (case (case REPL_init h p of
                          Inl e \<Rightarrow> (Raised e, w)
                        | Inr r \<Rightarrow> view_add_repl h r (w\<lparr>repl := Some r\<rparr>)) of
                    (Raised ex, w') \<Rightarrow>
                      if is_OSError ex then
                        (Returned,
                         show_message (str h ex)
                           (Some ''Click the device's reset button, wait a few seconds and then try again.'')
                           None (w'\<lparr>repl := None\<rparr>))
                      else (Raised ex, w')
                  | res \<Rightarrow> res)
               else
                 (Returned,
                  show_message ''Could not find an attached BBC micro:bit.''
                    (Some no_device_information) None w)
           | None \<Rightarrow>
               (Returned,
                show_message ''Could not find an attached BBC micro:bit.''
                  (Some no_device_information) None w)))"

definition remove_repl :: "world \<Rightarrow> outcome \<times> world" where
  "remove_repl w =
     (if repl w = None then (Raised NotOpen, w)
      else case view_remove_repl w of
        (Returned, w') \<Rightarrow> (Returned, w'\<lparr>repl := None\<rparr>)
      | res \<Rightarrow> res)"

definition toggle_repl :: "host \<Rightarrow> error + string option \<Rightarrow> world \<Rightarrow> outcome \<times> world" where
  "toggle_repl h found w =
     (if repl w = None then add_repl h found w else remove_repl w)"

subsection \<open>Session restore (\<^verbatim>\<open>restore_session\<close>)\<close>

text \<open>
  The loop over the listed paths: a path whose \<^verbatim>\<open>open\<close> raises \<^verbatim>\<open>FileNotFoundError\<close>
  is skipped, any other error leaves the loop, a file that was read becomes a tab.
\<close>

fun restore_tabs :: "string list \<Rightarrow> world \<Rightarrow> outcome \<times> world" where
  "restore_tabs [] w = (Returned, w)"
| "restore_tabs (tab # rest) w =
     (case open_read (files w) tab of
        Inl e \<Rightarrow> if e = FileNotFoundError then restore_tabs rest w else (Raised e, w)
      | Inr t \<Rightarrow> restore_tabs rest (add_tab (Some tab) t w))"

definition placeholder :: string where
  "placeholder = ''from microbit import *'' @ [CHR 0x0A, CHR 0x0A] @ ''# Write code here :-)''"

definition read_session :: "host \<Rightarrow> world \<Rightarrow> outcome \<times> world" where
  "read_session h w =
     (if exists (files w) (SESSION_FILE h) then
        (case open_read (files w) (SESSION_FILE h) of
           Inl e \<Rightarrow> (Raised e, w)
         | Inr f \<Rightarrow>
             (case json_load h f of
                Inl e \<Rightarrow> (Raised e, w)
              | Inr ts \<Rightarrow> if ts \<noteq> [] then restore_tabs ts w else (Returned, w)))
      else (Returned, w))"

definition restore_session :: "host \<Rightarrow> world \<Rightarrow> outcome \<times> world" where
  "restore_session h w =
     (case read_session h w of
        (Returned, w') \<Rightarrow>
          if tab_count w' = 0 then (Returned, add_tab None placeholder w') else (Returned, w')
      | res \<Rightarrow> res)"

subsection \<open>Flashing (\<^verbatim>\<open>flash\<close>)\<close>

definition flash_information :: string where
  "flash_information =
     ''When the yellow LED stops flashing the device will restart and your script will run. ''
     @ ''If there is an error, you'll see a helpful message scroll across the device's display.''"

text \<open>
  \<open>found\<close> is what \<^verbatim>\<open>uflash.find_microbit()\<close> returns at this call (\<open>Inl\<close> when it
  raises). The script is encoded before the device is looked for, as in the source.
\<close>

definition flash :: "host \<Rightarrow> error + string option \<Rightarrow> world \<Rightarrow> outcome \<times> world" where
  "flash h found w =
     (case current_tab w of
        None \<Rightarrow> (Returned, w)
      | Some tab \<Rightarrow>
          (case hexlify h (contents tab) of
             Inl e \<Rightarrow> (Raised e, w)
           | Inr python_hex \<Rightarrow>
               (case embed_hex h (RUNTIME h) python_hex of
                  Inl e \<Rightarrow> (Raised e, w)
                | Inr micropython_hex \<Rightarrow>
                    (case found of
                       Inl e \<Rightarrow> (Raised e, w)
                     | Inr path_to_microbit \<Rightarrow>
                         if truthy path_to_microbit then
                           (case save_hex h micropython_hex
                                   (join (the path_to_microbit) ''micropython.hex'') (files w) of
                              (Some e, f) \<Rightarrow> (Raised e, w\<lparr>files := f\<rparr>)
                            | (None, f) \<Rightarrow>
                                (Returned,
                                 show_message
                                   (''Flashing '' @ [CHR 0x22] @ label tab @ [CHR 0x22]
                                      @ '' onto the micro:bit.'')
                                   (Some flash_information) (Some ''Information'')
                                   (w\<lparr>files := f\<rparr>)))
                         else
                           (Returned,
                            show_message ''Could not find an attached BBC micro:bit.''
                              None None w)))))"

subsection \<open>Documents (\<^verbatim>\<open>new\<close>, \<^verbatim>\<open>load\<close>, \<^verbatim>\<open>save\<close>)\<close>

definition new :: "world \<Rightarrow> outcome \<times> world" where
  "new w = (Returned, add_tab None [] w)"

text \<open>
  \<open>chosen\<close> is the path the load dialog returns (\<^verbatim>\<open>''\<close> when it is cancelled). The
  \<^verbatim>\<open>try\<close> covers the read and the extraction, so a \<^verbatim>\<open>FileNotFoundError\<close> of either
  is swallowed.
\<close>

definition load :: "host \<Rightarrow> string \<Rightarrow> world \<Rightarrow> outcome \<times> world" where
  "load h chosen w =
     (let w1 = get_load_path (MICROPYTHON_DIRECTORY h) w;
          res = (if endswith chosen ''.py'' then
                   (case open_read (files w1) chosen of
                      Inl e \<Rightarrow> Inl e
                    | Inr t \<Rightarrow> Inr (Some chosen, t))
                 else
                   (case open_read (files w1) chosen of
                      Inl e \<Rightarrow> Inl e
                    | Inr f \<Rightarrow>
                        (case extract_script h f of
                           Inl e \<Rightarrow> Inl e
                         | Inr t \<Rightarrow> Inr (None, t))))
      in case res of
           Inl e \<Rightarrow> if e = FileNotFoundError then (Returned, w1) else (Raised e, w1)
         | Inr (name, t) \<Rightarrow> (Returned, add_tab name t w1))"

text \<open>Assignments to the fields of the current tab (\<^verbatim>\<open>tab.path = ...\<close>).\<close>

definition set_tab :: "EditorPane \<Rightarrow> world \<Rightarrow> world" where
  "set_tab t w = w\<lparr>tabs := (tabs w)[current w := t]\<rparr>"

text \<open>
  \<open>chosen\<close> is the path the save dialog returns, when it is asked (\<^verbatim>\<open>''\<close> when it
  is cancelled). The path is assigned before the file is opened, so it stays
  assigned when the write raises.
\<close>

definition save :: "host \<Rightarrow> string \<Rightarrow> world \<Rightarrow> outcome \<times> world" where
  "save h chosen w =
     (case current_tab w of
        None \<Rightarrow> (Returned, w)
      | Some tab \<Rightarrow>
          (let (p1, w1) = (if path tab = None
                           then (Some chosen, get_save_path (MICROPYTHON_DIRECTORY h) w)
                           else (path tab, w))
           in case p1 of
                Some p \<Rightarrow>
                  if p \<noteq> [] then
                    (let p2 = (if \<not> endswith (basename p) ''.py'' then p @ ''.py'' else p);
                         w2 = set_tab (tab\<lparr>path := Some p2\<rparr>) w1
                     in case open_write (files w2) p2 (contents tab) of
                          (Some e, f) \<Rightarrow> (Raised e, w2\<lparr>files := f\<rparr>)
                        | (None, f) \<Rightarrow>
                            (Returned,
                             set_tab (tab\<lparr>path := Some p2, modified := False\<rparr>) (w2\<lparr>files := f\<rparr>)))
                  else (Returned, set_tab (tab\<lparr>path := None\<rparr>) w1)
              | None \<Rightarrow> (Returned, set_tab (tab\<lparr>path := None\<rparr>) w1)))"

subsection \<open>Leaving (\<^verbatim>\<open>quit\<close>)\<close>

text \<open>The paths \<^verbatim>\<open>quit\<close> collects: those of the tabs whose path is true, in tab order.\<close>

fun session_paths :: "EditorPane list \<Rightarrow> string list" where
  "session_paths [] = []"
| "session_paths (widget # rest) =
     (if truthy (path widget) then the (path widget) # session_paths rest
      else session_paths rest)"

text \<open>
  \<open>answer\<close> is the button the confirmation returns, when it is asked;
  \<open>has_ignore\<close> says that \<^verbatim>\<open>quit\<close> was handed an event with an \<^verbatim>\<open>ignore\<close> method.
\<close>

definition quit :: "host \<Rightarrow> button \<Rightarrow> bool \<Rightarrow> world \<Rightarrow> outcome \<times> world" where
  "quit h answer has_ignore w =
     (let w1 = (if view_modified w then show_confirmation ''You have un-saved work!'' w else w)
      in if view_modified w \<and> answer = Cancel then
           (Returned, if has_ignore then w1\<lparr>ignored := True\<rparr> else w1)
         else
           (case open_write (files w1) (SESSION_FILE h) (json_dump h (session_paths (tabs w1))) of
              (Some e, f) \<Rightarrow> (Raised e, w1\<lparr>files := f\<rparr>)
            | (None, f) \<Rightarrow> (Exited 0, w1\<lparr>files := f\<rparr>)))"

section \<open>States the editor can be in\<close>

text \<open>
  The world after \<^verbatim>\<open>Editor.__init__\<close> and \<^verbatim>\<open>Window.setup\<close>: no tab, no REPL, nothing
  shown; the file system is whatever it is.
\<close>

definition startup :: "fs \<Rightarrow> world" where
  "startup f =
     \<lparr>files = f, tabs = [], current = 0, view_repl = None, splitter = [],
      repl = None, shown = [], ignored = False\<rparr>"

text \<open>
  The worlds a run can pass through: the operations of the editor with any input,
  the user's work on the tabs (editing, switching, closing: the window owns it)
  and changes of the file system by other programs. A raised error returns to the
  event loop, so the world an operation leaves is reachable however it ended.
\<close>

inductive reachable :: "host \<Rightarrow> world \<Rightarrow> bool" for h :: host where
  r_start: "reachable h (startup f)"
| r_restore: "reachable h w \<Longrightarrow> reachable h (snd (restore_session h w))"
| r_flash: "reachable h w \<Longrightarrow> reachable h (snd (flash h found w))"
| r_add_repl: "reachable h w \<Longrightarrow> reachable h (snd (add_repl h found w))"
| r_remove_repl: "reachable h w \<Longrightarrow> reachable h (snd (remove_repl w))"
| r_toggle_repl: "reachable h w \<Longrightarrow> reachable h (snd (toggle_repl h found w))"
| r_new: "reachable h w \<Longrightarrow> reachable h (snd (new w))"
| r_load: "reachable h w \<Longrightarrow> reachable h (snd (load h chosen w))"
| r_save: "reachable h w \<Longrightarrow> reachable h (snd (save h chosen w))"
| r_quit: "reachable h w \<Longrightarrow> reachable h (snd (quit h answer has_ignore w))"
| r_user: "reachable h w \<Longrightarrow> reachable h (w\<lparr>tabs := ts, current := i\<rparr>)"
| r_files: "reachable h w \<Longrightarrow> reachable h (w\<lparr>files := f\<rparr>)"

text \<open>
  The window's REPL pane and the splitter agree, and a pane in the window is a
  session of the editor.
\<close>

definition session_inv :: "world \<Rightarrow> bool" where
  "session_inv w =
     (case view_repl w of
        None \<Rightarrow> splitter w = []
      | Some p \<Rightarrow> splitter w = [p] \<and> repl w \<noteq> None)"

text \<open>An operation that leaves the session alone.\<close>

definition same_session :: "world \<Rightarrow> world \<Rightarrow> bool" where
  "same_session w w' =
     (view_repl w' = view_repl w \<and> splitter w' = splitter w \<and> repl w' = repl w)"

text \<open>
  A path is readable when opening and reading it returns a text, and missing when
  it raises \<^verbatim>\<open>FileNotFoundError\<close>; \<open>file_text\<close> is the text read (empty when none is).
\<close>

definition readable :: "fs \<Rightarrow> string \<Rightarrow> bool" where
  "readable f p = (case open_read f p of Inl e \<Rightarrow> False | Inr t \<Rightarrow> True)"

definition missing :: "fs \<Rightarrow> string \<Rightarrow> bool" where
  "missing f p = (open_read f p = Inl FileNotFoundError)"

definition file_text :: "fs \<Rightarrow> string \<Rightarrow> string" where
  "file_text f p = (case open_read f p of Inl e \<Rightarrow> [] | Inr t \<Rightarrow> t)"

text \<open>
  The documents of a list of session paths: one per readable path, in the order of
  the list, each with its path and the text of its file, unmodified.
\<close>

definition restored :: "fs \<Rightarrow> string list \<Rightarrow> EditorPane list" where
  "restored f ps =
     map (\<lambda>p. \<lparr>path = Some p, contents = file_text f p, modified = False\<rparr>)
       (filter (readable f) ps)"

section \<open>The image encoder\<close>

text \<open>
  The editor calls the encoder of \<^verbatim>\<open>mu/contrib/uflash.py\<close> (\<^verbatim>\<open>hexlify\<close>, \<^verbatim>\<open>embed_hex\<close>,
  \<^verbatim>\<open>extract_script\<close>) from \<^verbatim>\<open>Editor.flash\<close> and \<^verbatim>\<open>Editor.load\<close>; the encoder's own code
  is not in \<^verbatim>\<open>mu/editor.py\<close> or \<^verbatim>\<open>mu/interface.py\<close>. The encoder below follows the
  specification's description of the image format, at the level of records: the
  layout of a record in bytes is the board's and is not modelled.
\<close>

type_synonym byte = "8 word"

text \<open>
  Modelled from the spec: the record of a firmware image (\<^verbatim>\<open>uflash\<close>'s line of the
  hex file), "carrying an address, a payload, and a checksum", and "bearing the
  script's reserved marker" or not.
\<close>

record hex_record =
  address :: nat
  script_marker :: bool
  payload :: "byte list"
  checksum :: byte

text \<open>
  Modelled from the spec: a firmware image, "a sequence of fixed-format records"
  that "terminates with the format's required end-of-data marker".
\<close>

datatype line = Data hex_record | EndOfData

type_synonym image = "line list"

text \<open>
  Modelled from the spec: what the specification leaves to the board's format: where
  the appended address range starts, the "fixed maximum payload per record", the
  capacity for a script, and the checksum of a record, "computed over raw byte
  values".
\<close>

record format =
  script_address :: nat
  max_payload :: nat
  capacity :: nat
  checksum_of :: "nat \<Rightarrow> byte list \<Rightarrow> byte"

text \<open>
  Modelled from the spec: the two failures of the encoder; \<open>ScriptTooLarge\<close> carries
  "the offending size/limit".
\<close>

datatype image_error = NoScriptFound | ScriptTooLarge nat nat

text \<open>
  Modelled from the spec: the payloads of the records of a script, each of at most
  \<open>n\<close> bytes (one payload for all of it when \<open>n\<close> is 0). A script always has a
  record, so the empty script is told from no script.
\<close>

function chunks :: "nat \<Rightarrow> 'a list \<Rightarrow> 'a list list" where
  "chunks n xs =
     (if n = 0 \<or> length xs \<le> n then [xs] else take n xs # chunks n (drop n xs))"
  by pat_completeness auto
termination
  by (relation "measure (\<lambda>(n, xs). length xs)") auto

declare chunks.simps [simp del]

text \<open>
  Modelled from the spec: the records of the payloads from address \<open>a\<close> on,
  "address-tagged, checksummed", marked as the script's.
\<close>

fun place :: "format \<Rightarrow> nat \<Rightarrow> byte list list \<Rightarrow> hex_record list" where
  "place fmt a [] = []"
| "place fmt a (c # cs) =
     \<lparr>address = a, script_marker = True, payload = c, checksum = checksum_of fmt a c\<rparr>
       # place fmt (a + length c) cs"

text \<open>Modelled from the spec: "serializes script into the binary record format".\<close>

definition serialize :: "format \<Rightarrow> byte list \<Rightarrow> hex_record list" where
  "serialize fmt script = place fmt (script_address fmt) (chunks (max_payload fmt) script)"

text \<open>Modelled from the spec: an image's own records, up to its end-of-data marker.\<close>

fun data_records :: "image \<Rightarrow> hex_record list" where
  "data_records [] = []"
| "data_records (EndOfData # ls) = []"
| "data_records (Data r # ls) = r # data_records ls"

text \<open>
  Modelled from the spec: \<^verbatim>\<open>embed\<close>, which "appends these records after the base
  image's own records, and terminates with the format's required end-of-data
  marker"; "oversized scripts (exceeding the format's capacity) are a defined
  failure".
\<close>

definition image_embed :: "format \<Rightarrow> image \<Rightarrow> byte list \<Rightarrow> image_error + image" where
  "image_embed fmt base script =
     (if capacity fmt < length script
      then Inl (ScriptTooLarge (length script) (capacity fmt))
      else Inr (map Data (data_records base) @ map Data (serialize fmt script) @ [EndOfData]))"

text \<open>Modelled from the spec: "the appended address range".\<close>

definition in_region :: "format \<Rightarrow> hex_record \<Rightarrow> bool" where
  "in_region fmt r =
     (script_address fmt \<le> address r \<and> address r \<le> script_address fmt + capacity fmt)"

text \<open>
  Modelled from the spec: the records \<^verbatim>\<open>extract\<close> reads: it "scans the appended
  address range for records bearing the script's reserved marker"; a record whose
  checksum is wrong is not valid.
\<close>

definition script_records :: "format \<Rightarrow> image \<Rightarrow> hex_record list" where
  "script_records fmt img =
     filter (\<lambda>r. in_region fmt r \<and> script_marker r
                  \<and> checksum r = checksum_of fmt (address r) (payload r))
       (data_records img)"

text \<open>
  Modelled from the spec: \<^verbatim>\<open>extract\<close>, which "concatenates their payloads in
  address order", its "failure mode being \<open>NoScriptFound\<close> when no valid embedded
  region exists".
\<close>

definition image_extract :: "format \<Rightarrow> image \<Rightarrow> image_error + byte list" where
  "image_extract fmt img =
     (let rs = script_records fmt img
      in if rs = [] then Inl NoScriptFound
         else Inr (concat (map payload (sort_key address rs))))"

section \<open>Worked examples\<close>

text \<open>
  A host and a file system to run the operations on. Its \<^verbatim>\<open>json\<close> writes a list of
  plain paths as \<^verbatim>\<open>json.dump(..., indent=2)\<close> does and reads back the lists it
  knows; its \<^verbatim>\<open>uflash\<close> is a stand-in that never raises.
\<close>

definition quoted :: "string \<Rightarrow> string" where
  "quoted p = [CHR 0x22] @ p @ [CHR 0x22]"

fun json_items :: "string list \<Rightarrow> string" where
  "json_items [] = []"
| "json_items [p] = [CHR 0x0A] @ ''  '' @ quoted p @ [CHR 0x0A]"
| "json_items (p # ps) = [CHR 0x0A] @ ''  '' @ quoted p @ '','' @ json_items ps"

definition example_json_dump :: "string list \<Rightarrow> string" where
  "example_json_dump ps = ''['' @ json_items ps @ '']''"

definition example_paths :: "string list" where
  "example_paths = [''/a.py'', ''/gone.py'', ''/b.py'']"

definition example_json_load :: "string \<Rightarrow> error + string list" where
  "example_json_load s =
     (if s = example_json_dump example_paths then Inr example_paths
      else if s = ''[]'' then Inr []
      else Inl (ValueError ''Expecting value''))"

definition example_host :: host where
  "example_host =
     \<lparr>os_name = Posix, HOME_DIRECTORY = ''/home/pi'', DATA_DIR = ''/data'',
      json_load = example_json_load, json_dump = example_json_dump,
      RUNTIME = '':00000001FF'',
      hexlify = (\<lambda>s. Inr s),
      embed_hex = (\<lambda>r p. Inr (p @ r)),
      extract_script = (\<lambda>s. Inr []),
      save_hex = (\<lambda>hx p f. open_write f p hx),
      REPLPane = (\<lambda>p. None),
      strerror = (\<lambda>e. [])\<rparr>"

text \<open>
  Nodes: a path that names nothing and below which nothing can be created; a path
  that names nothing in a directory that can be written; a regular file; a path
  below a regular file.
\<close>

definition nowhere :: node where
  "nowhere =
     \<lparr>present = False, stored = None, read_error = None,
      on_write = OpenRaises FileNotFoundError\<rparr>"

definition vacant :: node where
  "vacant = \<lparr>present = False, stored = None, read_error = None, on_write = Writes\<rparr>"

definition regular :: "string \<Rightarrow> node" where
  "regular t = \<lparr>present = True, stored = Some t, read_error = None, on_write = Writes\<rparr>"

definition below_file :: node where
  "below_file =
     \<lparr>present = False, stored = None, read_error = Some NotADirectoryError,
      on_write = OpenRaises NotADirectoryError\<rparr>"

definition example_files :: fs where
  "example_files =
     (\<lambda>p. nowhere)
       (''/data/tabs.json'' := regular (example_json_dump example_paths),
        ''/a.py'' := regular ''a = 1'',
        ''/gone.py'' := vacant,
        ''/b.py'' := regular ''b = 2'',
        ''/new.py'' := vacant,
        ''/a.py/x'' := below_file,
        ''/fw.hex'' := regular '':00000001FF'')"

text \<open>The same host with an \<^verbatim>\<open>extract_script\<close> that raises when it finds no script.\<close>

definition strict_host :: host where
  "strict_host = example_host\<lparr>extract_script := (\<lambda>s. Inl (ValueError ''No script found''))\<rparr>"

text \<open>The same files with no session file, and with one whose paths are all gone.\<close>

definition fresh_files :: fs where
  "fresh_files = (\<lambda>p. nowhere)(''/fw.hex'' := regular '':00000001FF'')"

definition stale_files :: fs where
  "stale_files =
     (\<lambda>p. nowhere)(''/data/tabs.json'' := regular (example_json_dump example_paths))"

text \<open>A window with a saved tab, and the current one, modified and never saved.\<close>

definition example_world :: world where
  "example_world =
     (startup example_files)
       \<lparr>tabs := [\<lparr>path = Some ''/a.py'', contents = ''a = 1'', modified = False\<rparr>,
                 \<lparr>path = None, contents = ''b = 3'', modified = True\<rparr>],
        current := 1\<rparr>"

text \<open>The world at startup with a live session on \<^verbatim>\<open>/dev/ttyACM0\<close>.\<close>

definition example_session :: world where
  "example_session =
     (startup example_files)
       \<lparr>view_repl := Some ''/dev/ttyACM0'', splitter := [''/dev/ttyACM0''],
        repl := Some (REPL ''/dev/ttyACM0'')\<rparr>"

text \<open>An image format, a runtime with no script, and a script of five bytes.\<close>

definition example_format :: format where
  "example_format =
     \<lparr>script_address = 1000, max_payload = 2, capacity = 8,
      checksum_of = (\<lambda>a bs. - (of_nat a + of_nat (length bs) + sum_list bs))\<rparr>"

definition example_base :: image where
  "example_base =
     [Data \<lparr>address = 0, script_marker = False, payload = [1, 2], checksum = 0\<rparr>, EndOfData]"

definition example_script :: "byte list" where
  "example_script = [104, 105, 0, 255, 0]"

section \<open>Lemmas\<close>

subsection \<open>The session is touched by its three operations only\<close>

lemma same_session_inv: "same_session w w' \<Longrightarrow> session_inv w \<Longrightarrow> session_inv w'"
  by (auto simp: same_session_def session_inv_def split: option.splits)

lemma restore_tabs_session: "same_session w (snd (restore_tabs ps w))"
proof (induction ps arbitrary: w)
  case Nil
  show ?case by (simp add: same_session_def)
next
  case (Cons p ps)
  from Cons [of w] Cons [of "add_tab (Some p) t w" for t] show ?case
    by (auto simp: same_session_def add_tab_def split: sum.splits)
qed

lemma read_session_session: "same_session w (snd (read_session h w))"
  using restore_tabs_session [of w]
  by (simp add: read_session_def same_session_def split: sum.splits)

lemma restore_session_session: "same_session w (snd (restore_session h w))"
  using read_session_session [of w h]
  by (cases "read_session h w")
    (auto simp: restore_session_def same_session_def add_tab_def split: outcome.splits)

lemma flash_session: "same_session w (snd (flash h found w))"
  by (auto simp: flash_def same_session_def show_message_def
      split: sum.splits option.splits prod.splits)

lemma new_session: "same_session w (snd (new w))"
  by (simp add: new_def same_session_def add_tab_def)

lemma load_session: "same_session w (snd (load h chosen w))"
  by (auto simp: load_def same_session_def add_tab_def get_load_path_def Let_def
      split: sum.splits)

lemma save_session: "same_session w (snd (save h chosen w))"
  by (auto simp: save_def same_session_def set_tab_def get_save_path_def Let_def
      split: option.splits prod.splits)

lemma quit_session: "same_session w (snd (quit h answer ev w))"
  by (auto simp: quit_def same_session_def show_confirmation_def Let_def
      split: option.splits prod.splits)

lemma add_repl_inv: "session_inv w \<Longrightarrow> session_inv (snd (add_repl h found w))"
  by (auto simp: add_repl_def session_inv_def view_add_repl_def show_message_def
      split: sum.splits option.splits outcome.splits prod.splits if_splits)

lemma remove_repl_inv: "session_inv w \<Longrightarrow> session_inv (snd (remove_repl w))"
  by (auto simp: remove_repl_def session_inv_def view_remove_repl_def
      split: sum.splits option.splits error.splits outcome.splits prod.splits if_splits)

lemma toggle_repl_inv: "session_inv w \<Longrightarrow> session_inv (snd (toggle_repl h found w))"
  by (simp add: toggle_repl_def add_repl_inv remove_repl_inv)

lemma reachable_inv: "reachable h w \<Longrightarrow> session_inv w"
proof (induction rule: reachable.induct)
  case (r_start f)
  show ?case by (simp add: session_inv_def startup_def)
next
  case (r_user w ts i)
  then show ?case by (simp add: session_inv_def split: option.splits)
next
  case (r_files w f)
  then show ?case by (simp add: session_inv_def split: option.splits)
qed (blast intro: same_session_inv restore_session_session flash_session new_session
      load_session save_session quit_session add_repl_inv remove_repl_inv toggle_repl_inv)+

subsection \<open>Paths and tabs\<close>

lemma endswith_append [simp]: "endswith (p @ suf) suf"
  by (simp add: endswith_def)

lemma endswith_basename:
  assumes "endswith (basename p) suf"
  shows "endswith p suf"
proof -
  let ?n = "length suf"
  let ?tw = "takeWhile (\<lambda>c. c \<noteq> CHR ''/'') (rev p)"
  let ?dw = "dropWhile (\<lambda>c. c \<noteq> CHR ''/'') (rev p)"
  from assms have t: "take ?n ?tw = rev suf"
    by (simp add: endswith_def basename_def)
  then have "length (take ?n ?tw) = length (rev suf)" by (rule arg_cong)
  then have le: "?n \<le> length ?tw" by simp
  have "take ?n (rev p) = take ?n (?tw @ ?dw)" by simp
  also have "\<dots> = take ?n ?tw" unfolding take_append using le by simp
  finally show ?thesis using t by (simp add: endswith_def)
qed

lemma view_modified_iff: "view_modified w \<longleftrightarrow> (\<exists>t\<in>set (tabs w). modified t)"
  by (simp add: view_modified_def list_ex_iff)

lemma session_paths_eq:
  "session_paths ts =
     concat (map (\<lambda>t. case path t of None \<Rightarrow> [] | Some p \<Rightarrow> if p = [] then [] else [p]) ts)"
  by (induction ts) (auto split: option.splits)

lemma SESSION_FILE_ne [simp]: "SESSION_FILE h \<noteq> []"
  by (simp add: SESSION_FILE_def join_def)

lemma example_session_file: "SESSION_FILE example_host = ''/data/tabs.json''"
  by (simp add: SESSION_FILE_def example_host_def join_def endswith_def)

lemma example_micropython: "MICROPYTHON_DIRECTORY example_host = ''/home/pi/micropython''"
  by (simp add: MICROPYTHON_DIRECTORY_def example_host_def join_def endswith_def)

subsection \<open>Session restore\<close>

lemma restored_Nil [simp]: "restored f [] = []"
  by (simp add: restored_def)

lemma restored_Cons:
  "restored f (p # ps) =
     (if readable f p then \<lparr>path = Some p, contents = file_text f p, modified = False\<rparr> # restored f ps
      else restored f ps)"
  by (simp add: restored_def)

lemma open_read_cases:
  "missing f p \<or> readable f p \<Longrightarrow>
   open_read f p = (if readable f p then Inr (file_text f p) else Inl FileNotFoundError)"
  by (auto simp: missing_def readable_def file_text_def split: sum.splits)

lemma restore_tabs_eq:
  "\<forall>p\<in>set ps. missing (files w) p \<or> readable (files w) p \<Longrightarrow>
   restore_tabs ps w =
     (Returned,
      w\<lparr>tabs := tabs w @ restored (files w) ps,
        current := (if restored (files w) ps = [] then current w
                    else length (tabs w) + length (restored (files w) ps) - 1)\<rparr>)"
proof (induction ps arbitrary: w)
  case Nil
  then show ?case by simp
next
  case (Cons p ps)
  then have nd: "missing (files w) p \<or> readable (files w) p"
    and rest: "\<forall>q\<in>set ps. missing (files w) q \<or> readable (files w) q"
    by simp_all
  show ?case
  proof (cases "readable (files w) p")
    case True
    let ?w = "add_tab (Some p) (file_text (files w) p) w"
    have f: "files ?w = files w" by (simp add: add_tab_def)
    from rest have "\<forall>q\<in>set ps. missing (files ?w) q \<or> readable (files ?w) q"
      by (simp add: f)
    from Cons.IH [OF this] True show ?thesis
      by (simp add: open_read_cases [OF nd] restored_Cons f) (simp add: add_tab_def)
  next
    case False
    with Cons.IH [OF rest] show ?thesis
      by (simp add: open_read_cases [OF nd] restored_Cons)
  qed
qed

lemma restore_tabs_missing:
  "\<forall>p\<in>set ps. missing (files w) p \<Longrightarrow> restore_tabs ps w = (Returned, w)"
  by (induction ps) (auto simp: missing_def)

lemma read_session_eq:
  assumes "exists (files w) (SESSION_FILE h)"
    and "open_read (files w) (SESSION_FILE h) = Inr f"
    and "json_load h f = Inr ps"
    and "\<forall>p\<in>set ps. missing (files w) p \<or> readable (files w) p"
  shows "read_session h w =
     (Returned,
      w\<lparr>tabs := tabs w @ restored (files w) ps,
        current := (if restored (files w) ps = [] then current w
                    else length (tabs w) + length (restored (files w) ps) - 1)\<rparr>)"
proof (cases "ps = []")
  case True
  with assms show ?thesis by (simp add: read_session_def)
next
  case False
  with assms restore_tabs_eq [OF assms(4)] show ?thesis by (simp add: read_session_def)
qed

subsection \<open>What the file system refuses is raised\<close>

lemma restore_tabs_raises:
  "open_read (files w) p = Inl e \<Longrightarrow> e \<noteq> FileNotFoundError \<Longrightarrow>
   restore_tabs (p # ps) w = (Raised e, w)"
  by simp

lemma example_below_file:
  "restore_tabs [''/a.py/x''] (startup example_files)
     = (Raised NotADirectoryError, startup example_files)"
  by (simp add: open_read_def startup_def example_files_def below_file_def)

lemma quit_open_raises:
  "answer = Ok \<or> \<not> view_modified w \<Longrightarrow> on_write (files w (SESSION_FILE h)) = OpenRaises e \<Longrightarrow>
   fst (quit h answer has_ignore w) = Raised e
   \<and> files (snd (quit h answer has_ignore w)) = files w"
  by (auto simp: quit_def show_confirmation_def open_write_def Let_def)

lemma save_open_raises:
  "current_tab w = Some tab \<Longrightarrow> path tab = Some p \<Longrightarrow> p \<noteq> [] \<Longrightarrow>
   on_write (files w (if endswith (basename p) ''.py'' then p else p @ ''.py'')) = OpenRaises e \<Longrightarrow>
   fst (save h chosen w) = Raised e \<and> files (snd (save h chosen w)) = files w"
  by (auto simp: save_def set_tab_def open_write_def Let_def)

subsection \<open>The worked examples\<close>

lemma example_current:
  "current_tab example_world = Some \<lparr>path = None, contents = ''b = 3'', modified = True\<rparr>"
  by (simp add: current_tab_def example_world_def startup_def)

subsection \<open>The image encoder\<close>

lemma chunks_concat: "concat (chunks n xs) = xs"
  by (induction n xs rule: chunks.induct) (subst chunks.simps, simp)

lemma chunks_ne: "chunks n xs \<noteq> []"
  by (subst chunks.simps) simp

lemma place_payload: "map payload (place fmt a cs) = cs"
  by (induction cs arbitrary: a) simp_all

lemma place_ne: "cs \<noteq> [] \<Longrightarrow> place fmt a cs \<noteq> []"
  by (cases cs) simp_all

lemma place_address:
  "r \<in> set (place fmt a cs) \<Longrightarrow> a \<le> address r \<and> address r \<le> a + length (concat cs)"
  by (induction cs arbitrary: a) fastforce+

lemma place_sorted: "sorted (map address (place fmt a cs))"
  by (induction cs arbitrary: a) (auto dest: place_address)

lemma place_marked:
  "r \<in> set (place fmt a cs) \<Longrightarrow>
   script_marker r \<and> checksum r = checksum_of fmt (address r) (payload r)"
  by (induction cs arbitrary: a) auto

lemma data_records_app: "data_records (map Data rs @ ls) = rs @ data_records ls"
  by (induction rs) simp_all

lemma example_chunks: "chunks 2 example_script = [[104, 105], [0, 255], [0]]"
  by (simp add: example_script_def chunks.simps)

lemma example_serialize:
  "map address (serialize example_format example_script) = [1000, 1002, 1004]
   \<and> map payload (serialize example_format example_script) = [[104, 105], [0, 255], [0]]"
  by (simp add: serialize_def example_format_def example_chunks)

lemma example_embed:
  "image_embed example_format example_base example_script =
     Inr (Data \<lparr>address = 0, script_marker = False, payload = [1, 2], checksum = 0\<rparr>
          # map Data (serialize example_format example_script) @ [EndOfData])"
  by (simp add: image_embed_def example_base_def example_script_def example_format_def)

section \<open>The claims\<close>

text \<open>
  C1. For the encoder as the specification describes it: for every script within
  the format's capacity and every base image with no embedded script (one from
  which nothing can be extracted), embedding succeeds and extracting from the
  image it produces yields exactly the script.
\<close>

theorem embed_extract_roundtrip:
  assumes cap: "length s \<le> capacity fmt"
    and base: "image_extract fmt base = Inl NoScriptFound"
  shows "case image_embed fmt base s of
           Inl e \<Rightarrow> False
         | Inr img \<Rightarrow> image_extract fmt img = Inr s"
proof -
  let ?rs = "serialize fmt s"
  let ?P = "\<lambda>r. in_region fmt r \<and> script_marker r
                  \<and> checksum r = checksum_of fmt (address r) (payload r)"
  have b: "filter ?P (data_records base) = []"
    using base by (simp add: image_extract_def script_records_def Let_def split: if_splits)
  have "\<forall>r\<in>set ?rs. ?P r"
  proof
    fix r assume r: "r \<in> set ?rs"
    then have "script_address fmt \<le> address r \<and> address r \<le> script_address fmt + length s"
      using place_address [of r fmt "script_address fmt" "chunks (max_payload fmt) s"]
      by (simp add: serialize_def chunks_concat)
    with cap r show "?P r"
      by (auto simp: in_region_def serialize_def dest: place_marked)
  qed
  then have f: "filter ?P ?rs = ?rs" by (simp add: filter_id_conv)
  have ne: "?rs \<noteq> []" by (simp add: serialize_def place_ne chunks_ne)
  have so: "sort_key address ?rs = ?rs"
    by (simp add: serialize_def place_sorted sort_key_id_if_sorted)
  have pl: "concat (map payload ?rs) = s"
    by (simp add: serialize_def place_payload chunks_concat)
  have "script_records fmt (map Data (data_records base) @ map Data ?rs @ [EndOfData]) = ?rs"
    by (simp add: script_records_def data_records_app b f)
  with cap ne so pl show ?thesis
    by (simp add: image_embed_def image_extract_def Let_def)
qed

text \<open>
  A script of five bytes on a runtime of one record: three records of at most two
  bytes from address 1000 on, and the script read back from the image.
\<close>

theorem embed_extract_roundtrip_witness:
  "length example_script \<le> capacity example_format
   \<and> image_extract example_format example_base = Inl NoScriptFound
   \<and> map address (serialize example_format example_script) = [1000, 1002, 1004]
   \<and> map payload (serialize example_format example_script) = [[104, 105], [0, 255], [0]]
   \<and> image_extract example_format
         (Data \<lparr>address = 0, script_marker = False, payload = [1, 2], checksum = 0\<rparr>
          # map Data (serialize example_format example_script) @ [EndOfData])
       = Inr [104, 105, 0, 255, 0]"
proof -
  have a: "length example_script \<le> capacity example_format"
    by (simp add: example_script_def example_format_def)
  have b: "image_extract example_format example_base = Inl NoScriptFound"
    by (simp add: image_extract_def script_records_def example_base_def in_region_def
        example_format_def)
  have "image_extract example_format
         (Data \<lparr>address = 0, script_marker = False, payload = [1, 2], checksum = 0\<rparr>
          # map Data (serialize example_format example_script) @ [EndOfData])
       = Inr example_script"
    using embed_extract_roundtrip [OF a b] by (simp add: example_embed)
  with a b example_serialize show ?thesis by (simp add: example_script_def)
qed

text \<open>
  C2. A second \<^verbatim>\<open>add_repl\<close> while a session is live raises \<^verbatim>\<open>RuntimeError("REPL already
  running")\<close> (AlreadyOpen) and changes nothing: so it is right after any \<^verbatim>\<open>add_repl\<close>
  that returned with a session, and an \<^verbatim>\<open>add_repl\<close> with no session before, a board
  found, a supported platform and a pane that opens does return with a session.
  \<^verbatim>\<open>remove_repl\<close> with no session raises \<^verbatim>\<open>RuntimeError("REPL not running")\<close> (NotOpen)
  and changes nothing. In every reachable world the window holds at most one REPL
  pane, which is then the editor's session.
\<close>

theorem single_session:
  "(repl w \<noteq> None \<longrightarrow> add_repl h found w = (Raised AlreadyOpen, w))
   \<and> (add_repl h found w = (Returned, w1) \<and> repl w1 \<noteq> None
        \<longrightarrow> add_repl h found2 w1 = (Raised AlreadyOpen, w1))
   \<and> (repl w = None \<and> p \<noteq> [] \<and> REPL_init h p = Inr r \<and> REPLPane h (port r) = None
        \<longrightarrow> add_repl h (Inr (Some p)) w =
              (Returned,
               w\<lparr>repl := Some r, view_repl := Some (port r),
                 splitter := splitter w @ [port r]\<rparr>))
   \<and> (repl w = None \<longrightarrow> remove_repl w = (Raised NotOpen, w))
   \<and> (reachable h w \<longrightarrow> length (splitter w) \<le> 1 \<and> (splitter w \<noteq> [] \<longrightarrow> repl w \<noteq> None))"
proof -
  have a: "repl v \<noteq> None \<Longrightarrow> add_repl h f v = (Raised AlreadyOpen, v)" for v f
    by (simp add: add_repl_def)
  have b: "repl w = None \<Longrightarrow> remove_repl w = (Raised NotOpen, w)"
    by (simp add: remove_repl_def)
  have c: "length (splitter w) \<le> 1 \<and> (splitter w \<noteq> [] \<longrightarrow> repl w \<noteq> None)" if "reachable h w"
    using reachable_inv [OF that] by (auto simp: session_inv_def split: option.splits)
  have d: "add_repl h (Inr (Some p)) w =
              (Returned,
               w\<lparr>repl := Some r, view_repl := Some (port r),
                 splitter := splitter w @ [port r]\<rparr>)"
    if "repl w = None" "p \<noteq> []" "REPL_init h p = Inr r" "REPLPane h (port r) = None"
    using that by (simp add: add_repl_def view_add_repl_def)
  from a b c d show ?thesis by blast
qed

text \<open>
  Opening at startup on a Posix host with a board on \<^verbatim>\<open>ttyACM0\<close> gives a session;
  opening again fails; closing at startup fails.
\<close>

theorem single_session_witness:
  "repl (startup example_files) = None
   \<and> REPL_init example_host ''ttyACM0'' = Inr (REPL ''/dev/ttyACM0'')
   \<and> REPLPane example_host ''/dev/ttyACM0'' = None
   \<and> add_repl example_host (Inr (Some ''ttyACM0'')) (startup example_files)
       = (Returned, example_session)
   \<and> repl example_session \<noteq> None
   \<and> add_repl example_host (Inr (Some ''ttyACM0'')) example_session
       = (Raised AlreadyOpen, example_session)
   \<and> remove_repl (startup example_files) = (Raised NotOpen, startup example_files)
   \<and> reachable example_host example_session
   \<and> length (splitter example_session) \<le> 1
   \<and> splitter example_session \<noteq> []"
proof -
  have idle: "repl (startup example_files) = None"
    by (simp add: startup_def)
  have init: "REPL_init example_host ''ttyACM0'' = Inr (REPL ''/dev/ttyACM0'')"
    by (simp add: REPL_init_def example_host_def)
  have pane: "REPLPane example_host ''/dev/ttyACM0'' = None"
    by (simp add: example_host_def)
  have w: "(startup example_files)
             \<lparr>repl := Some (REPL ''/dev/ttyACM0''), view_repl := Some ''/dev/ttyACM0'',
              splitter := splitter (startup example_files) @ [''/dev/ttyACM0'']\<rparr>
           = example_session"
    by (simp add: example_session_def startup_def)
  have op: "add_repl example_host (Inr (Some ''ttyACM0'')) (startup example_files)
              = (Returned, example_session)"
    using idle init pane
      single_session [of "startup example_files" example_host _ _ _ "''ttyACM0''"
        "REPL ''/dev/ttyACM0''"]
    by (simp add: w)
  have live: "repl example_session \<noteq> None" and ne: "splitter example_session \<noteq> []"
    by (simp_all add: example_session_def)
  have "reachable example_host
          (snd (add_repl example_host (Inr (Some ''ttyACM0'')) (startup example_files)))"
    by (rule r_add_repl) (rule r_start)
  then have reach: "reachable example_host example_session"
    by (simp add: op)
  from op live ne idle init pane reach
    single_session [of example_session example_host "Inr (Some ''ttyACM0'')"]
    single_session [of "startup example_files" example_host "Inr (Some ''ttyACM0'')"
      example_session "Inr (Some ''ttyACM0'')"]
  show ?thesis by simp
qed

text \<open>
  C3. When some open document is modified and the confirmation is answered with
  cancel, \<^verbatim>\<open>quit\<close> returns: the process is not left, no file is written (the session
  file included) and the tabs are as they were; the world differs only by the
  confirmation having been shown and, when \<^verbatim>\<open>quit\<close> was handed a close event, by that
  event being ignored.
\<close>

theorem quit_cancelled:
  assumes "t \<in> set (tabs w)" and "modified t"
  shows "quit h Cancel has_ignore w =
           (Returned,
            w\<lparr>shown := shown w @ [Confirmation ''You have un-saved work!''],
              ignored := has_ignore \<or> ignored w\<rparr>)
         \<and> files (snd (quit h Cancel has_ignore w)) = files w
         \<and> tabs (snd (quit h Cancel has_ignore w)) = tabs w"
proof -
  from assms have m: "view_modified w" by (auto simp: view_modified_iff)
  then have "quit h Cancel has_ignore w =
           (Returned,
            w\<lparr>shown := shown w @ [Confirmation ''You have un-saved work!''],
              ignored := has_ignore \<or> ignored w\<rparr>)"
    by (cases has_ignore) (simp_all add: quit_def show_confirmation_def Let_def)
  then show ?thesis by simp
qed

text \<open>Cancelling the quit of the example window, which has an unsaved tab.\<close>

theorem quit_cancelled_witness:
  "\<lparr>path = None, contents = ''b = 3'', modified = True\<rparr> \<in> set (tabs example_world)
   \<and> modified \<lparr>path = None, contents = ''b = 3'', modified = True\<rparr>
   \<and> quit example_host Cancel True example_world =
       (Returned,
        example_world\<lparr>shown := [Confirmation ''You have un-saved work!''], ignored := True\<rparr>)
   \<and> files (snd (quit example_host Cancel True example_world)) = files example_world"
proof -
  have a: "\<lparr>path = None, contents = ''b = 3'', modified = True\<rparr> \<in> set (tabs example_world)"
    by (simp add: example_world_def)
  have b: "modified \<lparr>path = None, contents = ''b = 3'', modified = True\<rparr>" by simp
  have c: "shown example_world = []" by (simp add: example_world_def startup_def)
  from a b quit_cancelled [OF a b, of example_host True] show ?thesis
    by (simp add: c)
qed

text \<open>
  C4. When the session file exists, can be read and decodes to a list of paths,
  and opening each listed path either raises \<^verbatim>\<open>FileNotFoundError\<close> (the file is
  missing) or returns its text, \<^verbatim>\<open>restore_session\<close> returns without raising, writes
  and shows nothing, and adds after the tabs already open one document per listed
  path that was read, in the order of the list, each with its path and the text of
  its file; a missing path is dropped. (With no tab before and none restored, the
  one default document of C5 is created.)
\<close>

theorem restore_session_partial:
  assumes "exists (files w) (SESSION_FILE h)"
    and "open_read (files w) (SESSION_FILE h) = Inr f"
    and "json_load h f = Inr ps"
    and "\<forall>p\<in>set ps. open_read (files w) p = Inl FileNotFoundError \<or> readable (files w) p"
  shows "fst (restore_session h w) = Returned
         \<and> tabs (snd (restore_session h w)) =
             (if tabs w = [] \<and> filter (readable (files w)) ps = []
              then [\<lparr>path = None, contents = placeholder, modified = False\<rparr>]
              else tabs w @
                   map (\<lambda>p. \<lparr>path = Some p, contents = file_text (files w) p, modified = False\<rparr>)
                     (filter (readable (files w)) ps))
         \<and> files (snd (restore_session h w)) = files w
         \<and> shown (snd (restore_session h w)) = shown w"
proof -
  from assms(4) have "\<forall>p\<in>set ps. missing (files w) p \<or> readable (files w) p"
    by (simp add: missing_def)
  from read_session_eq [OF assms(1-3) this] show ?thesis
    by (auto simp: restore_session_def tab_count_def add_tab_def restored_def)
qed

text \<open>
  A session of three paths of which the second is gone, restored at startup:
  exactly the two existing documents, in order.
\<close>

theorem restore_session_partial_witness:
  "exists (files (startup example_files)) (SESSION_FILE example_host)
   \<and> open_read (files (startup example_files)) (SESSION_FILE example_host)
       = Inr (example_json_dump example_paths)
   \<and> json_load example_host (example_json_dump example_paths)
       = Inr [''/a.py'', ''/gone.py'', ''/b.py'']
   \<and> open_read (files (startup example_files)) ''/a.py'' = Inr ''a = 1''
   \<and> open_read (files (startup example_files)) ''/gone.py'' = Inl FileNotFoundError
   \<and> open_read (files (startup example_files)) ''/b.py'' = Inr ''b = 2''
   \<and> fst (restore_session example_host (startup example_files)) = Returned
   \<and> tabs (snd (restore_session example_host (startup example_files))) =
       [\<lparr>path = Some ''/a.py'', contents = ''a = 1'', modified = False\<rparr>,
        \<lparr>path = Some ''/b.py'', contents = ''b = 2'', modified = False\<rparr>]"
proof -
  have fs: "files (startup example_files) = example_files" by (simp add: startup_def)
  have e: "exists (files (startup example_files)) (SESSION_FILE example_host)"
    unfolding fs by (simp add: example_session_file exists_def example_files_def regular_def)
  have a: "open_read (files (startup example_files)) (SESSION_FILE example_host)
             = Inr (example_json_dump example_paths)"
    unfolding fs
    by (simp add: example_session_file open_read_def example_files_def regular_def)
  have b: "json_load example_host (example_json_dump example_paths) = Inr example_paths"
    by (simp add: example_host_def example_json_load_def)
  have l: "open_read example_files ''/a.py'' = Inr ''a = 1''"
    "open_read example_files ''/gone.py'' = Inl FileNotFoundError"
    "open_read example_files ''/b.py'' = Inr ''b = 2''"
    by (simp_all add: open_read_def example_files_def regular_def vacant_def)
  have c: "\<forall>p\<in>set example_paths.
             open_read (files (startup example_files)) p = Inl FileNotFoundError
             \<or> readable (files (startup example_files)) p"
    by (simp add: fs example_paths_def l readable_def)
  have t: "tabs (startup example_files) = []" by (simp add: startup_def)
  from e a b l restore_session_partial [OF e a b c] show ?thesis
    by (simp add: fs t example_paths_def readable_def file_text_def)
qed

text \<open>
  C5. At startup (no tab yet), when the session file does not exist, or exists,
  can be read and decodes to a list (the empty list included) of which every path
  is missing (opening it raises \<^verbatim>\<open>FileNotFoundError\<close>), \<^verbatim>\<open>restore_session\<close> returns
  having created exactly one document: the placeholder script, no path,
  unmodified, and current.
\<close>

theorem restore_session_default:
  assumes "tabs w = []"
    and "\<not> exists (files w) (SESSION_FILE h)
         \<or> (exists (files w) (SESSION_FILE h)
              \<and> open_read (files w) (SESSION_FILE h) = Inr f \<and> json_load h f = Inr ps
              \<and> (\<forall>p\<in>set ps. open_read (files w) p = Inl FileNotFoundError))"
  shows "restore_session h w =
           (Returned,
            w\<lparr>tabs := [\<lparr>path = None, contents = placeholder, modified = False\<rparr>], current := 0\<rparr>)"
proof -
  from assms(2) have "read_session h w = (Returned, w)"
  proof
    assume "\<not> exists (files w) (SESSION_FILE h)"
    then show ?thesis by (simp add: read_session_def)
  next
    assume a: "exists (files w) (SESSION_FILE h)
              \<and> open_read (files w) (SESSION_FILE h) = Inr f \<and> json_load h f = Inr ps
              \<and> (\<forall>p\<in>set ps. open_read (files w) p = Inl FileNotFoundError)"
    then have "\<forall>p\<in>set ps. missing (files w) p" by (simp add: missing_def)
    with a show ?thesis by (simp add: read_session_def restore_tabs_missing)
  qed
  with assms(1) show ?thesis
    by (simp add: restore_session_def tab_count_def add_tab_def)
qed

text \<open>No session file; and a session file whose three paths are all gone.\<close>

theorem restore_session_default_witness:
  "tabs (startup fresh_files) = []
   \<and> \<not> exists (files (startup fresh_files)) (SESSION_FILE example_host)
   \<and> restore_session example_host (startup fresh_files) =
       (Returned,
        (startup fresh_files)
          \<lparr>tabs := [\<lparr>path = None, contents = placeholder, modified = False\<rparr>], current := 0\<rparr>)
   \<and> tabs (startup stale_files) = []
   \<and> exists (files (startup stale_files)) (SESSION_FILE example_host)
   \<and> open_read (files (startup stale_files)) (SESSION_FILE example_host)
       = Inr (example_json_dump example_paths)
   \<and> json_load example_host (example_json_dump example_paths) = Inr example_paths
   \<and> list_all (\<lambda>p. open_read (files (startup stale_files)) p = Inl FileNotFoundError)
         example_paths
   \<and> restore_session example_host (startup stale_files) =
       (Returned,
        (startup stale_files)
          \<lparr>tabs := [\<lparr>path = None, contents = placeholder, modified = False\<rparr>], current := 0\<rparr>)"
proof -
  have t: "tabs (startup fresh_files) = []" "tabs (startup stale_files) = []"
    by (simp_all add: startup_def)
  have fs: "files (startup fresh_files) = fresh_files" "files (startup stale_files) = stale_files"
    by (simp_all add: startup_def)
  have a: "\<not> exists (files (startup fresh_files)) (SESSION_FILE example_host)"
    unfolding fs by (simp add: example_session_file exists_def fresh_files_def nowhere_def)
  have x: "exists (files (startup stale_files)) (SESSION_FILE example_host)"
    unfolding fs by (simp add: example_session_file exists_def stale_files_def regular_def)
  have b: "open_read (files (startup stale_files)) (SESSION_FILE example_host)
             = Inr (example_json_dump example_paths)"
    unfolding fs by (simp add: example_session_file open_read_def stale_files_def regular_def)
  have c: "json_load example_host (example_json_dump example_paths) = Inr example_paths"
    by (simp add: example_host_def example_json_load_def)
  have d: "\<forall>p\<in>set example_paths.
             open_read (files (startup stale_files)) p = Inl FileNotFoundError"
    unfolding fs by (simp add: example_paths_def open_read_def stale_files_def nowhere_def)
  have e: "list_all (\<lambda>p. open_read (files (startup stale_files)) p = Inl FileNotFoundError)
             example_paths"
    using d by (simp add: list_all_iff)
  from t a x b c e
    restore_session_default [OF t(1) disjI1, OF a]
    restore_session_default [OF t(2) disjI2, of example_host "example_json_dump example_paths"
      example_paths, OF conjI, OF x conjI, OF b conjI, OF c d]
  show ?thesis by simp
qed

text \<open>
  C6. When \<^verbatim>\<open>quit\<close> goes on to persist (no document is modified, or the confirmation
  was answered with OK) and the session file can be opened for writing and
  written, the process exits with status 0 and the session file exists and holds
  exactly \<^verbatim>\<open>json.dump\<close> of the collected paths, whatever it held before; the
  collected paths are, in tab order, the path of every open document that has a
  non-empty one, and a document with no path contributes nothing.
\<close>

theorem quit_persists:
  assumes "answer = Ok \<or> \<not> view_modified w"
    and "on_write (files w (SESSION_FILE h)) = Writes"
  shows "quit h answer has_ignore w =
           (Exited 0,
            w\<lparr>shown := (if view_modified w
                         then shown w @ [Confirmation ''You have un-saved work!''] else shown w),
              files := (files w)
                (SESSION_FILE h :=
                   (files w (SESSION_FILE h))
                     \<lparr>present := True,
                      stored := Some (json_dump h (session_paths (tabs w)))\<rparr>)\<rparr>)
         \<and> stored (files (snd (quit h answer has_ignore w)) (SESSION_FILE h)) =
             Some (json_dump h (session_paths (tabs w)))
         \<and> session_paths (tabs w) =
             concat (map (\<lambda>t. case path t of None \<Rightarrow> []
                                | Some p \<Rightarrow> if p = [] then [] else [p]) (tabs w))"
proof -
  from assms have "quit h answer has_ignore w =
           (Exited 0,
            w\<lparr>shown := (if view_modified w
                         then shown w @ [Confirmation ''You have un-saved work!''] else shown w),
              files := (files w)
                (SESSION_FILE h :=
                   (files w (SESSION_FILE h))
                     \<lparr>present := True,
                      stored := Some (json_dump h (session_paths (tabs w)))\<rparr>)\<rparr>)"
    by (auto simp: quit_def show_confirmation_def open_write_def Let_def)
  then show ?thesis by (simp add: session_paths_eq)
qed

text \<open>Quitting the example window with OK: only the saved tab's path is persisted.\<close>

theorem quit_persists_witness:
  "view_modified example_world
   \<and> on_write (files example_world (SESSION_FILE example_host)) = Writes
   \<and> quit example_host Ok False example_world =
       (Exited 0,
        example_world
          \<lparr>shown := [Confirmation ''You have un-saved work!''],
           files := (files example_world)
             (''/data/tabs.json'' := regular (example_json_dump [''/a.py'']))\<rparr>)
   \<and> session_paths (tabs example_world) = [''/a.py'']"
proof -
  have a: "Ok = Ok \<or> \<not> view_modified example_world" by simp
  have n: "files example_world (SESSION_FILE example_host)
             = regular (example_json_dump example_paths)"
    by (simp add: example_session_file example_world_def startup_def example_files_def)
  have b: "on_write (files example_world (SESSION_FILE example_host)) = Writes"
    by (simp add: n regular_def)
  have c: "view_modified example_world" "shown example_world = []"
    "session_paths (tabs example_world) = [''/a.py'']"
    "json_dump example_host = example_json_dump"
    by (simp_all add: example_world_def startup_def view_modified_def example_host_def)
  have r: "(regular (example_json_dump example_paths))
             \<lparr>present := True, stored := Some (example_json_dump [''/a.py''])\<rparr>
           = regular (example_json_dump [''/a.py''])"
    by (simp add: regular_def)
  from b quit_persists [OF a b, of False] n show ?thesis
    by (simp add: c r example_session_file del: fun_upd_apply)
qed

text \<open>
  C7. When \<^verbatim>\<open>flash\<close> has a current tab and \<^verbatim>\<open>uflash.find_microbit()\<close> returns nothing
  (\<^verbatim>\<open>None\<close> or an empty path), the file system is left as it was, however the
  encoding of the script ends; and when the encoding returns (\<^verbatim>\<open>hexlify\<close> and
  \<^verbatim>\<open>embed_hex\<close> run before the device is looked for), \<^verbatim>\<open>flash\<close> returns having shown
  exactly the message that no attached micro:bit could be found.
\<close>

theorem flash_no_device:
  assumes "current_tab w = Some tab" and "\<not> truthy dev"
  shows "files (snd (flash h (Inr dev) w)) = files w
         \<and> (hexlify h (contents tab) = Inr python_hex
              \<and> embed_hex h (RUNTIME h) python_hex = Inr micropython_hex
            \<longrightarrow> flash h (Inr dev) w =
                  (Returned,
                   w\<lparr>shown := shown w
                        @ [Message ''Could not find an attached BBC micro:bit.'' None None]\<rparr>))"
  using assms by (auto simp: flash_def show_message_def split: sum.splits)

text \<open>Flashing the current tab of the example window with no board attached.\<close>

theorem flash_no_device_witness:
  "current_tab example_world = Some \<lparr>path = None, contents = ''b = 3'', modified = True\<rparr>
   \<and> \<not> truthy None
   \<and> hexlify example_host ''b = 3'' = Inr ''b = 3''
   \<and> embed_hex example_host (RUNTIME example_host) ''b = 3'' = Inr ''b = 3:00000001FF''
   \<and> flash example_host (Inr None) example_world =
       (Returned,
        example_world\<lparr>shown := [Message ''Could not find an attached BBC micro:bit.'' None None]\<rparr>)
   \<and> files (snd (flash example_host (Inr None) example_world)) = files example_world"
proof -
  have n: "\<not> truthy None" by simp
  have a: "hexlify example_host ''b = 3'' = Inr ''b = 3''"
    "embed_hex example_host (RUNTIME example_host) ''b = 3'' = Inr ''b = 3:00000001FF''"
    by (simp_all add: example_host_def)
  have s: "shown example_world = []" by (simp add: example_world_def startup_def)
  from a n example_current
    flash_no_device [OF example_current n, of example_host "''b = 3''" "''b = 3:00000001FF''"]
  show ?thesis by (simp add: s)
qed

text \<open>
  C8. \<^verbatim>\<open>save\<close> on the current tab: the save dialog is shown exactly when the tab has
  no path, and the path \<open>p\<close> to save to is the tab's, or else the dialog's answer.
  When \<open>p\<close> is empty the save is abandoned: \<^verbatim>\<open>save\<close> returns, nothing is written, and
  the tab's path is \<^verbatim>\<open>None\<close>. Otherwise the path \<open>p2\<close> that is used ends in \<^verbatim>\<open>.py\<close>
  (\<open>p\<close> itself when its base name does, \<open>p\<close> with \<^verbatim>\<open>.py\<close> appended when not) and,
  when \<open>p2\<close> can be opened for writing and written, \<^verbatim>\<open>save\<close> returns, the file at
  \<open>p2\<close> exists and holds the tab's text, the tab's path is \<open>p2\<close> and its modified
  flag is cleared.
\<close>

theorem save_current:
  assumes "current_tab w = Some tab"
    and "p = (case path tab of None \<Rightarrow> chosen | Some q \<Rightarrow> q)"
    and "p2 = (if endswith (basename p) ''.py'' then p else p @ ''.py'')"
    and "w1 = (if path tab = None
               then w\<lparr>shown := shown w @ [SaveDialog (MICROPYTHON_DIRECTORY h)]\<rparr> else w)"
  shows "(p = [] \<longrightarrow>
            save h chosen w = (Returned, w1\<lparr>tabs := (tabs w)[current w := tab\<lparr>path := None\<rparr>]\<rparr>))
         \<and> (p \<noteq> [] \<longrightarrow> endswith p2 ''.py'')
         \<and> (p \<noteq> [] \<and> on_write (files w p2) = Writes \<longrightarrow>
              save h chosen w =
                (Returned,
                 w1\<lparr>files := (files w)
                       (p2 := (files w p2)\<lparr>present := True, stored := Some (contents tab)\<rparr>),
                    tabs := (tabs w)[current w := tab\<lparr>path := Some p2, modified := False\<rparr>]\<rparr>))"
proof -
  have e: "endswith p2 ''.py''"
    using assms(3) endswith_basename [of p "''.py''"] by (simp split: if_splits)
  have ne: "p2 \<noteq> []" if "p \<noteq> []" using that assms(3) by (simp split: if_splits)
  show ?thesis
  proof (cases "path tab")
    case None
    with assms ne e show ?thesis
      by (auto simp: save_def get_save_path_def set_tab_def open_write_def Let_def)
  next
    case (Some q)
    with assms ne e show ?thesis
      by (auto simp: save_def set_tab_def open_write_def Let_def)
  qed
qed

text \<open>
  Saving the unsaved tab of the example window as \<^verbatim>\<open>/new\<close>, and cancelling its save
  dialog.
\<close>

theorem save_current_witness:
  "current_tab example_world = Some \<lparr>path = None, contents = ''b = 3'', modified = True\<rparr>
   \<and> on_write (files example_world ''/new.py'') = Writes
   \<and> endswith ''/new.py'' ''.py''
   \<and> save example_host ''/new'' example_world =
       (Returned,
        example_world
          \<lparr>shown := [SaveDialog ''/home/pi/micropython''],
           files := (files example_world)(''/new.py'' := regular ''b = 3''),
           tabs := [\<lparr>path = Some ''/a.py'', contents = ''a = 1'', modified = False\<rparr>,
                    \<lparr>path = Some ''/new.py'', contents = ''b = 3'', modified = False\<rparr>]\<rparr>)
   \<and> save example_host [] example_world =
       (Returned, example_world\<lparr>shown := [SaveDialog ''/home/pi/micropython'']\<rparr>)"
proof -
  have n: "files example_world ''/new.py'' = vacant"
    by (simp add: example_world_def startup_def example_files_def)
  have nd: "on_write (files example_world ''/new.py'') = Writes"
    by (simp add: n vacant_def)
  have r: "vacant\<lparr>present := True, stored := Some ''b = 3''\<rparr> = regular ''b = 3''"
    by (simp add: vacant_def regular_def)
  have b: "basename ''/new'' = ''new''" by (simp add: basename_def)
  have w: "shown example_world = []" "current example_world = 1"
    "tabs example_world = [\<lparr>path = Some ''/a.py'', contents = ''a = 1'', modified = False\<rparr>,
                           \<lparr>path = None, contents = ''b = 3'', modified = True\<rparr>]"
    by (simp_all add: example_world_def startup_def)
  from nd example_current n
    save_current [OF example_current refl refl refl, of "''/new''" example_host]
    save_current [OF example_current refl refl refl, of "[]" example_host]
  show ?thesis
    by (simp add: b w r example_micropython endswith_def del: fun_upd_apply)
qed

text \<open>
  C9 as stated fails: \<^verbatim>\<open>load\<close> has no call of \<^verbatim>\<open>show_message\<close>. On an image with no
  script, an \<^verbatim>\<open>extract_script\<close> that returns the empty text gives a new empty tab and
  no message; one that raises gives no message either, and the error leaves
  \<^verbatim>\<open>load\<close>.
\<close>

theorem load_image_counterexample:
  "\<not> endswith ''/fw.hex'' ''.py''
   \<and> open_read (files (startup example_files)) ''/fw.hex'' = Inr '':00000001FF''
   \<and> extract_script example_host '':00000001FF'' = Inr []
   \<and> load example_host ''/fw.hex'' (startup example_files) =
       (Returned,
        (startup example_files)
          \<lparr>shown := [LoadDialog ''/home/pi/micropython''],
           tabs := [\<lparr>path = None, contents = [], modified = False\<rparr>]\<rparr>)
   \<and> extract_script strict_host '':00000001FF'' = Inl (ValueError ''No script found'')
   \<and> load strict_host ''/fw.hex'' (startup example_files) =
       (Raised (ValueError ''No script found''),
        (startup example_files)\<lparr>shown := [LoadDialog ''/home/pi/micropython'']\<rparr>)
   \<and> \<not> list_ex is_message (shown (snd (load example_host ''/fw.hex'' (startup example_files))))
   \<and> \<not> list_ex is_message (shown (snd (load strict_host ''/fw.hex'' (startup example_files))))
   \<and> tabs (snd (load example_host ''/fw.hex'' (startup example_files))) \<noteq>
       tabs (startup example_files)"
proof -
  have m: "MICROPYTHON_DIRECTORY strict_host = ''/home/pi/micropython''"
    by (simp add: MICROPYTHON_DIRECTORY_def strict_host_def example_host_def join_def endswith_def)
  have e: "\<not> endswith ''/fw.hex'' ''.py''" by (simp add: endswith_def)
  have r: "open_read example_files ''/fw.hex'' = Inr '':00000001FF''"
    by (simp add: open_read_def example_files_def regular_def)
  have x: "extract_script example_host '':00000001FF'' = Inr []"
    "extract_script strict_host '':00000001FF'' = Inl (ValueError ''No script found'')"
    by (simp_all add: example_host_def strict_host_def)
  from e r x show ?thesis
    by (simp add: load_def get_load_path_def add_tab_def startup_def Let_def m example_micropython)
qed

text \<open>
  C9, amended. When \<^verbatim>\<open>load\<close> is given a path that does not end in \<^verbatim>\<open>.py\<close> and whose
  file can be read, it shows nothing but the load dialog, whatever
  \<^verbatim>\<open>extract_script\<close> does: when \<^verbatim>\<open>extract_script\<close> returns a text, an untitled,
  unmodified tab with that text is added and made current; when it raises, no tab
  is added and the error leaves \<^verbatim>\<open>load\<close>, except for a \<^verbatim>\<open>FileNotFoundError\<close>, which is
  swallowed.
\<close>

theorem load_image:
  assumes "\<not> endswith chosen ''.py''"
    and "open_read (files w) chosen = Inr f"
    and "w1 = w\<lparr>shown := shown w @ [LoadDialog (MICROPYTHON_DIRECTORY h)]\<rparr>"
  shows "shown (snd (load h chosen w)) = shown w @ [LoadDialog (MICROPYTHON_DIRECTORY h)]
         \<and> list_ex is_message (shown (snd (load h chosen w))) = list_ex is_message (shown w)
         \<and> (extract_script h f = Inr t \<longrightarrow>
              load h chosen w =
                (Returned,
                 w1\<lparr>tabs := tabs w @ [\<lparr>path = None, contents = t, modified = False\<rparr>],
                    current := length (tabs w)\<rparr>))
         \<and> (extract_script h f = Inl e \<longrightarrow>
              load h chosen w = (if e = FileNotFoundError then Returned else Raised e, w1))"
  using assms
  by (auto simp: load_def get_load_path_def add_tab_def Let_def split: sum.splits)

text \<open>Loading an image with no script, with either \<^verbatim>\<open>extract_script\<close>.\<close>

theorem load_image_witness:
  "\<not> endswith ''/fw.hex'' ''.py''
   \<and> open_read (files (startup example_files)) ''/fw.hex'' = Inr '':00000001FF''
   \<and> extract_script example_host '':00000001FF'' = Inr []
   \<and> load example_host ''/fw.hex'' (startup example_files) =
       (Returned,
        (startup example_files)
          \<lparr>shown := [LoadDialog ''/home/pi/micropython''],
           tabs := [\<lparr>path = None, contents = [], modified = False\<rparr>], current := 0\<rparr>)
   \<and> extract_script strict_host '':00000001FF'' = Inl (ValueError ''No script found'')
   \<and> load strict_host ''/fw.hex'' (startup example_files) =
       (Raised (ValueError ''No script found''),
        (startup example_files)\<lparr>shown := [LoadDialog ''/home/pi/micropython'']\<rparr>)
   \<and> shown (snd (load strict_host ''/fw.hex'' (startup example_files))) =
       [LoadDialog ''/home/pi/micropython'']"
proof -
  have m: "MICROPYTHON_DIRECTORY strict_host = ''/home/pi/micropython''"
    by (simp add: MICROPYTHON_DIRECTORY_def strict_host_def example_host_def join_def endswith_def)
  have e: "\<not> endswith ''/fw.hex'' ''.py''" by (simp add: endswith_def)
  have r: "open_read (files (startup example_files)) ''/fw.hex'' = Inr '':00000001FF''"
    by (simp add: open_read_def example_files_def startup_def regular_def)
  have x: "extract_script example_host '':00000001FF'' = Inr []"
    "extract_script strict_host '':00000001FF'' = Inl (ValueError ''No script found'')"
    by (simp_all add: example_host_def strict_host_def)
  have s: "shown (startup example_files) = []" "tabs (startup example_files) = []"
    by (simp_all add: startup_def)
  from e r x
    load_image [OF e r refl, of example_host "[]" FileNotFoundError]
    load_image [OF e r refl, of strict_host "[]" "ValueError ''No script found''"]
  show ?thesis
    by (simp add: s m example_micropython)
qed

text \<open>
  C10. When the load dialog is cancelled (it returns the empty path), \<^verbatim>\<open>load\<close> is a
  silent no-op: the empty path does not end in \<^verbatim>\<open>.py\<close>, opening it raises
  \<^verbatim>\<open>FileNotFoundError\<close>, and \<^verbatim>\<open>load\<close> returns with no tab added and nothing shown but
  the load dialog itself.
\<close>

theorem load_cancelled:
  "\<not> endswith [] ''.py''
   \<and> open_read (files w) [] = Inl FileNotFoundError
   \<and> load h [] w = (Returned, w\<lparr>shown := shown w @ [LoadDialog (MICROPYTHON_DIRECTORY h)]\<rparr>)
   \<and> tabs (snd (load h [] w)) = tabs w
   \<and> list_ex is_message (shown (snd (load h [] w))) = list_ex is_message (shown w)"
  by (simp add: load_def endswith_def open_read_def get_load_path_def Let_def)

end
